theory Spec2Isabelle
  imports Main
begin

section \<open>The logr dispatch engine (vendor/github.com/mattermost/logr/logr.go)\<close>

text \<open>
  A sequential model of \<^verbatim>\<open>logr.go\<close>. Every method of \<^verbatim>\<open>*Logr\<close> becomes a function
  from the engine state to the new state, the value it returns, and the list of the
  calls it makes on its collaborators (targets, callbacks, counters, channels), in
  program order. A Go panic is a value of the result, never an unspecified term.
  The mutexes \<^verbatim>\<open>mux\<close> and \<^verbatim>\<open>tmux\<close> make each method body atomic with respect to
  the fields it reads, which is what running the methods one after another models.
\<close>

subsection \<open>Data model\<close>

type_synonym LevelID = int

text \<open>
  Modelled from the spec: \<^verbatim>\<open>Level\<close> (level.go is not part of the sources):
  a numeric ID, a name and the stack trace flag.
\<close>

record Level =
  ID :: LevelID
  LName :: string
  LStacktrace :: bool

text \<open>\<^verbatim>\<open>LevelStatus\<close>: the pair the level check returns.\<close>

record LevelStatus =
  Enabled :: bool
  Stacktrace :: bool

text \<open>\<^verbatim>\<open>var levelStatusDisabled = LevelStatus{}\<close>\<close>

definition levelStatusDisabled :: LevelStatus where
  "levelStatusDisabled = \<lparr>Enabled = False, Stacktrace = False\<rparr>"

text \<open>
  Modelled from the spec: \<^verbatim>\<open>LogRec\<close> (logrec.go is not part of the sources).
  A record is a data record (\<open>flush_chan = None\<close>) or a flush sentinel carrying the
  identity of its completion channel. \<open>prepPanic\<close> is what \<^verbatim>\<open>rec.prep()\<close> does:
  \<open>None\<close> when it returns, \<open>Some v\<close> when it panics with \<open>v\<close>.
\<close>

record LogRec =
  rlevel :: Level
  payload :: string
  flush_chan :: "nat option"
  prepPanic :: "string option"

text \<open>
  Modelled from the spec: \<^verbatim>\<open>newFlushLogRec\<close>, a sentinel around a fresh completion
  channel; every other field has Go's zero value.
\<close>

definition newFlushLogRec :: "nat \<Rightarrow> LogRec" where
  "newFlushLogRec c =
     \<lparr>rlevel = \<lparr>ID = 0, LName = [], LStacktrace = False\<rparr>, payload = [],
      flush_chan = Some c, prepPanic = None\<rparr>"

text \<open>
  The \<^verbatim>\<open>Target\<close> interface, as the behaviour of one implementation:
  \<open>levelEnabled\<close> is \<^verbatim>\<open>IsLevelEnabled\<close>, \<open>logPanic r\<close> is \<open>Some v\<close> when
  \<^verbatim>\<open>Log(r)\<close> panics with \<open>v\<close>, \<open>acksFlush\<close> says whether the target ever signals
  the channel of a flush marker it was given, \<open>shutdownErr\<close> is what \<^verbatim>\<open>Shutdown(ctx)\<close>
  returns, and \<open>enableMetrics\<close> is \<open>None\<close> for a target that is not a
  \<^verbatim>\<open>TargetWithMetrics\<close> and otherwise what \<^verbatim>\<open>EnableMetrics\<close> returns.
\<close>

record Target =
  tid :: nat
  levelEnabled :: "Level \<Rightarrow> bool \<times> bool"
  logPanic :: "LogRec \<Rightarrow> string option"
  acksFlush :: bool
  shutdownErr :: "string option"
  enableMetrics :: "string option option"

datatype error =
    ErrLogrShutDown
  | ErrEnqueueBeforeSetup
  | ErrEnqueueTimedOut LogRec
  | ErrShutdownAgain
  | ErrTimeout
  | ErrFanoutFailed nat string
  | ErrRecovered string
  | ErrLevelCachePut LevelID
  | ErrTarget string

text \<open>The calls the engine makes on its collaborators.\<close>

datatype event =
    EvErrorCounterInc
  | EvStderr error
  | EvOnLoggerError error
  | EvTargetIsLevelEnabled nat Level
  | EvTargetLog nat LogRec
  | EvTargetShutdown nat
  | EvEnableMetrics nat
  | EvOnQueueFull LogRec int
  | EvWaited int
  | EvLoggedCounterInc
  | EvSignal nat
  | EvCloseMetricsDone
  | EvCloseIn
  | EvCloseDone

text \<open>
  Modelled from the spec: the \<^verbatim>\<open>levelCache\<close> interface (levelcache.go is not part of
  the sources) with \<^verbatim>\<open>get\<close>, \<^verbatim>\<open>put\<close>, \<^verbatim>\<open>clear\<close> and \<^verbatim>\<open>setup\<close>. \<open>syncMap\<close> tells the
  two implementations apart, \<open>accepts\<close> is the set of level IDs for which \<^verbatim>\<open>put\<close>
  returns no error, and \<open>entries\<close> holds what was put since the last clear.
\<close>

record levelCache =
  syncMap :: bool
  accepts :: "LevelID \<Rightarrow> bool"
  entries :: "(LevelID \<times> LevelStatus) list"

definition cache_get :: "levelCache \<Rightarrow> LevelID \<Rightarrow> LevelStatus option" where
  "cache_get c i = map_of (entries c) i"

definition cache_put :: "levelCache \<Rightarrow> LevelID \<Rightarrow> LevelStatus \<Rightarrow> error + levelCache" where
  "cache_put c i st =
     (if accepts c i then Inr (c\<lparr>entries := (i, st) # entries c\<rparr>)
      else Inl (ErrLevelCachePut i))"

definition cache_clear :: "levelCache \<Rightarrow> levelCache" where
  "cache_clear c = c\<lparr>entries := []\<rparr>"

definition cache_setup :: "levelCache \<Rightarrow> levelCache" where
  "cache_setup c = cache_clear c"

text \<open>A Go channel of log records: its buffer, its capacity, and whether it is closed.\<close>

record chan =
  buf :: "LogRec list"
  cap :: nat
  closed :: bool

text \<open>\<^verbatim>\<open>bytes.Buffer\<close>: the bytes written and the capacity of the backing array.\<close>

record Buffer =
  bytes :: "nat list"
  bufCap :: nat

text \<open>
  \<^verbatim>\<open>sync.Pool\<close>: the pooled buffers and whether \<^verbatim>\<open>New\<close> is set. \<^verbatim>\<open>Get\<close> takes the
  buffer put last; Go may pick any pooled buffer or none.
\<close>

record Pool =
  items :: "Buffer list"
  hasNew :: bool

text \<open>
  Constants of the package declared outside logr.go, taken as parameters, and the
  \<^verbatim>\<open>put\<close> acceptance of the two level cache implementations.
\<close>

record Consts =
  DefaultMaxQueueSize :: int
  DefaultMaxPooledBuffer :: int
  DefaultEnqueueTimeout :: int
  DefaultShutdownTimeout :: int
  DefaultFlushTimeout :: int
  cacheAccepts :: "bool \<Rightarrow> LevelID \<Rightarrow> bool"

text \<open>
  \<^verbatim>\<open>type Logr struct\<close>. \<open>in_chan\<close> and \<open>done_closed\<close> are the fields \<^verbatim>\<open>in\<close> and
  \<^verbatim>\<open>done\<close> (\<open>None\<close> is nil; for \<^verbatim>\<open>done\<close> the value says whether it was closed),
  \<open>once_done\<close> is \<^verbatim>\<open>once\<close>, \<open>metricsDone\<close> says whether that channel is not nil.
  An interface or function field that the code only tests against nil and calls is a
  flag; \<open>OnQueueFull\<close> is the callback itself. \<open>nextChan\<close> numbers the channels made
  so far, so that \<^verbatim>\<open>make(chan struct{})\<close> yields a fresh identity.
\<close>

record Logr =
  targets :: "Target list"
  maxQueueSizeActual :: int
  in_chan :: "chan option"
  done_closed :: "bool option"
  once_done :: bool
  shutdown :: bool
  lvlCache :: "levelCache option"
  metricsDone :: bool
  metrics :: bool
  queueSizeGauge :: bool
  loggedCounter :: bool
  errorCounter :: bool
  bufferPool :: Pool
  MaxQueueSize :: int
  OnLoggerError :: bool
  OnQueueFull :: "(LogRec \<Rightarrow> int \<Rightarrow> bool) option"
  EnqueueTimeout :: int
  ShutdownTimeout :: int
  FlushTimeout :: int
  UseSyncMapLevelCache :: bool
  MaxPooledBuffer :: int
  DisableBufferPool :: bool
  MetricsUpdateFreqMillis :: int
  nextChan :: nat

text \<open>The zero value \<^verbatim>\<open>&Logr{}\<close>.\<close>

definition zeroLogr :: Logr where
  "zeroLogr =
     \<lparr>targets = [], maxQueueSizeActual = 0, in_chan = None, done_closed = None,
      once_done = False, shutdown = False, lvlCache = None, metricsDone = False,
      metrics = False, queueSizeGauge = False, loggedCounter = False,
      errorCounter = False, bufferPool = \<lparr>items = [], hasNew = False\<rparr>,
      MaxQueueSize = 0, OnLoggerError = False, OnQueueFull = None,
      EnqueueTimeout = 0, ShutdownTimeout = 0, FlushTimeout = 0,
      UseSyncMapLevelCache = False, MaxPooledBuffer = 0, DisableBufferPool = False,
      MetricsUpdateFreqMillis = 0, nextChan = 0\<rparr>"

subsection \<open>Error reporting\<close>

text \<open>\<^verbatim>\<open>func (logr *Logr) ReportError(err interface{})\<close>\<close>

definition ReportError :: "Logr \<Rightarrow> error \<Rightarrow> event list" where
  "ReportError s err =
     (if errorCounter s then [EvErrorCounterInc] else []) @
     (if \<not> OnLoggerError s then [EvStderr err] else [EvOnLoggerError err])"

subsection \<open>Target registration\<close>

text \<open>\<^verbatim>\<open>func (logr *Logr) resetLevelCache()\<close>\<close>

definition resetLevelCache :: "Logr \<Rightarrow> Logr" where
  "resetLevelCache s =
     (case lvlCache s of
        None \<Rightarrow> s
      | Some c \<Rightarrow> s\<lparr>lvlCache := Some (cache_clear c)\<rparr>)"

text \<open>\<^verbatim>\<open>func (logr *Logr) ResetLevelCache()\<close>\<close>

definition ResetLevelCache :: "Logr \<Rightarrow> Logr" where
  "ResetLevelCache s = resetLevelCache s"

text \<open>The queue size computed inside \<^verbatim>\<open>logr.once.Do\<close> (lines 139 to 145).\<close>

definition queueSizeActual :: "Consts \<Rightarrow> int \<Rightarrow> int" where
  "queueSizeActual k m =
     (let a = m;
          a = (if a = 0 then DefaultMaxQueueSize k else a);
          a = (if a < 0 then 0 else a)
      in a)"

text \<open>
  The body of \<^verbatim>\<open>logr.once.Do(func() {...})\<close> in \<^verbatim>\<open>AddTarget\<close>. \<^verbatim>\<open>go logr.start()\<close>
  launches the consumer, which is the function \<open>start\<close> below.
\<close>

definition onceBody :: "Consts \<Rightarrow> Logr \<Rightarrow> Logr" where
  "onceBody k s =
     (let a = queueSizeActual k (MaxQueueSize s);
          c = \<lparr>syncMap = UseSyncMapLevelCache s,
               accepts = cacheAccepts k (UseSyncMapLevelCache s), entries = []\<rparr>
      in s\<lparr>maxQueueSizeActual := a,
           in_chan := Some \<lparr>buf = [], cap = nat a, closed = False\<rparr>,
           done_closed := Some False,
           lvlCache := Some (cache_setup c),
           MaxPooledBuffer :=
             (if MaxPooledBuffer s = 0 then DefaultMaxPooledBuffer k else MaxPooledBuffer s),
           bufferPool := \<lparr>items = [], hasNew = True\<rparr>,
           once_done := True\<rparr>)"

text \<open>\<^verbatim>\<open>func (logr *Logr) AddTarget(target Target) error\<close>\<close>

definition AddTarget :: "Consts \<Rightarrow> Logr \<Rightarrow> Target \<Rightarrow> error option \<times> Logr \<times> event list" where
  "AddTarget k s target =
     (if shutdown s then (Some ErrLogrShutDown, s, [])
      else
        let s1 = s\<lparr>targets := targets s @ [target]\<rparr>;
            (err, ev) =
              (if metrics s1 then
                 (case enableMetrics target of
                    None \<Rightarrow> (None, [])
                  | Some r \<Rightarrow> (map_option ErrTarget r, [EvEnableMetrics (tid target)]))
               else (None, []));
            s2 = (if once_done s1 then s1 else onceBody k s1)
        in (err, resetLevelCache s2, ev))"

text \<open>\<^verbatim>\<open>func (logr *Logr) HasTargets() bool\<close>\<close>

definition HasTargets :: "Logr \<Rightarrow> bool" where
  "HasTargets s = (length (targets s) > 0)"

subsection \<open>Level enablement\<close>

text \<open>
  The loop of \<^verbatim>\<open>IsLevelEnabled\<close> over \<^verbatim>\<open>logr.targets\<close> (lines 203 to 212): the
  status so far, and the targets whose \<^verbatim>\<open>IsLevelEnabled\<close> is called, in order.
\<close>

fun scanTargets :: "Target list \<Rightarrow> Level \<Rightarrow> LevelStatus \<Rightarrow> LevelStatus \<times> event list" where
  "scanTargets [] lvl status = (status, [])"
| "scanTargets (t # ts) lvl status =
     (let (e, s) = levelEnabled t lvl;
          q = EvTargetIsLevelEnabled (tid t) lvl
      in if e then
           (let status1 = status\<lparr>Enabled := True\<rparr>
            in if s then (status1\<lparr>Stacktrace := True\<rparr>, [q])
               else (let (st, ev) = scanTargets ts lvl status1 in (st, q # ev)))
         else (let (st, ev) = scanTargets ts lvl status in (st, q # ev)))"

text \<open>\<^verbatim>\<open>func (logr *Logr) IsLevelEnabled(lvl Level) LevelStatus\<close>\<close>

definition IsLevelEnabled :: "Logr \<Rightarrow> Level \<Rightarrow> LevelStatus \<times> Logr \<times> event list" where
  "IsLevelEnabled s lvl =
     (case lvlCache s of
        None \<Rightarrow> (levelStatusDisabled, s, [])
      | Some c \<Rightarrow>
          (case cache_get c (ID lvl) of
             Some status \<Rightarrow> (status, s, [])
           | None \<Rightarrow>
               if shutdown s then (levelStatusDisabled, s, [])
               else
                 let (status, ev) = scanTargets (targets s) lvl \<lparr>Enabled = False, Stacktrace = False\<rparr>
                 in (case cache_put c (ID lvl) status of
                       Inl err \<Rightarrow> (\<lparr>Enabled = False, Stacktrace = False\<rparr>, s, ev @ ReportError s err)
                     | Inr c' \<Rightarrow> (status, s\<lparr>lvlCache := Some c'\<rparr>, ev))))"

subsection \<open>Buffer pool\<close>

text \<open>\<^verbatim>\<open>func (logr *Logr) BorrowBuffer() *bytes.Buffer\<close>. With no \<^verbatim>\<open>New\<close> and an empty
  pool, \<^verbatim>\<open>Get\<close> returns nil and the type assertion panics.\<close>

definition BorrowBuffer :: "Logr \<Rightarrow> Buffer option \<times> Logr" where
  "BorrowBuffer s =
     (if DisableBufferPool s then (Some \<lparr>bytes = [], bufCap = 0\<rparr>, s)
      else
        (case items (bufferPool s) of
           b # bs \<Rightarrow> (Some b, s\<lparr>bufferPool := (bufferPool s)\<lparr>items := bs\<rparr>\<rparr>)
         | [] \<Rightarrow>
             if hasNew (bufferPool s) then (Some \<lparr>bytes = [], bufCap = 0\<rparr>, s)
             else (None, s)))"

text \<open>\<^verbatim>\<open>func (logr *Logr) ReleaseBuffer(buf *bytes.Buffer)\<close>\<close>

definition ReleaseBuffer :: "Logr \<Rightarrow> Buffer \<Rightarrow> Logr" where
  "ReleaseBuffer s b =
     (if \<not> DisableBufferPool s \<and> int (bufCap b) < MaxPooledBuffer s then
        s\<lparr>bufferPool := (bufferPool s)\<lparr>items := b\<lparr>bytes := []\<rparr> # items (bufferPool s)\<rparr>\<rparr>
      else s)"

subsection \<open>The intake queue\<close>

text \<open>A call either returns a value or panics with one.\<close>

datatype 'a result = Returns 'a | Panics string

text \<open>
  A send that does not block, \<^verbatim>\<open>case logr.in <- rec:\<close> in a select with a default: a
  nil channel is never ready, a closed channel panics, an open one takes the record when
  its buffer has room. The consumer parked in a receive is not part of a state, so a
  send with no room is not ready.
\<close>

datatype send_result = Sent chan | NotReady | SendPanics

definition trySend :: "chan option \<Rightarrow> LogRec \<Rightarrow> send_result" where
  "trySend co r =
     (case co of
        None \<Rightarrow> NotReady
      | Some c \<Rightarrow>
          if closed c then SendPanics
          else if length (buf c) < cap c then Sent (c\<lparr>buf := buf c @ [r]\<rparr>)
          else NotReady)"

text \<open>\<^verbatim>\<open>func (logr *Logr) enqueueTimeout() time.Duration\<close>\<close>

definition enqueueTimeout :: "Consts \<Rightarrow> Logr \<Rightarrow> int" where
  "enqueueTimeout k s =
     (if EnqueueTimeout s = 0 then DefaultEnqueueTimeout k else EnqueueTimeout s)"

text \<open>\<^verbatim>\<open>func (logr *Logr) shutdownTimeout() time.Duration\<close>\<close>

definition shutdownTimeout :: "Consts \<Rightarrow> Logr \<Rightarrow> int" where
  "shutdownTimeout k s =
     (if ShutdownTimeout s = 0 then DefaultShutdownTimeout k else ShutdownTimeout s)"

text \<open>\<^verbatim>\<open>func (logr *Logr) flushTimeout() time.Duration\<close>\<close>

definition flushTimeout :: "Consts \<Rightarrow> Logr \<Rightarrow> int" where
  "flushTimeout k s =
     (if FlushTimeout s = 0 then DefaultFlushTimeout k else FlushTimeout s)"

text \<open>
  What the blocking select of \<^verbatim>\<open>enqueue\<close> (lines 262 to 266) meets while it waits:
  the consumer makes room before the timer fires, or it does not.
\<close>

datatype wait = RoomInTime | NoRoom

text \<open>
  The blocking select of \<^verbatim>\<open>enqueue\<close>. A send on a nil channel never proceeds, so
  there only the timer can fire.
\<close>

definition enqueueBlocking ::
  "Consts \<Rightarrow> wait \<Rightarrow> Logr \<Rightarrow> LogRec \<Rightarrow> unit result \<times> Logr \<times> event list" where
  "enqueueBlocking k w s r =
     (case in_chan s of
        None \<Rightarrow>
          (Returns (), s, EvWaited (enqueueTimeout k s) # ReportError s (ErrEnqueueTimedOut r))
      | Some c \<Rightarrow>
          (case w of
             RoomInTime \<Rightarrow> (Returns (), s\<lparr>in_chan := Some (c\<lparr>buf := buf c @ [r]\<rparr>)\<rparr>, [])
           | NoRoom \<Rightarrow>
               (Returns (), s,
                EvWaited (enqueueTimeout k s) # ReportError s (ErrEnqueueTimedOut r))))"

text \<open>\<^verbatim>\<open>func (logr *Logr) enqueue(rec *LogRec)\<close>\<close>

definition enqueue ::
  "Consts \<Rightarrow> wait \<Rightarrow> Logr \<Rightarrow> LogRec \<Rightarrow> unit result \<times> Logr \<times> event list" where
  "enqueue k w s r =
     (let ev0 = (if in_chan s = None then ReportError s ErrEnqueueBeforeSetup else [])
      in case trySend (in_chan s) r of
           Sent c \<Rightarrow> (Returns (), s\<lparr>in_chan := Some c\<rparr>, ev0)
         | SendPanics \<Rightarrow> (Panics ''send on closed channel'', s, ev0)
         | NotReady \<Rightarrow>
             (case OnQueueFull s of
                Some f \<Rightarrow>
                  if f r (maxQueueSizeActual s) then
                    (Returns (), s, ev0 @ [EvOnQueueFull r (maxQueueSizeActual s)])
                  else
                    (let (res, s', ev) = enqueueBlocking k w s r
                     in (res, s', ev0 @ [EvOnQueueFull r (maxQueueSizeActual s)] @ ev))
              | None \<Rightarrow>
                  (let (res, s', ev) = enqueueBlocking k w s r in (res, s', ev0 @ ev))))"

subsection \<open>The consumer\<close>

text \<open>
  The loop of \<^verbatim>\<open>fanout\<close> over \<^verbatim>\<open>logr.targets\<close> (lines 490 to 495): the calls made,
  the flag \<^verbatim>\<open>logged\<close>, and the target and value of a panic of \<^verbatim>\<open>target.Log\<close>, which
  leaves the loop.
\<close>

fun fanoutLoop ::
  "Target list \<Rightarrow> LogRec \<Rightarrow> bool \<Rightarrow> event list \<times> bool \<times> (nat \<times> string) option" where
  "fanoutLoop [] r logged = ([], logged, None)"
| "fanoutLoop (t # ts) r logged =
     (let q = EvTargetIsLevelEnabled (tid t) (rlevel r)
      in if fst (levelEnabled t (rlevel r)) then
           (case logPanic t r of
              Some v \<Rightarrow> ([q, EvTargetLog (tid t) r], logged, Some (tid t, v))
            | None \<Rightarrow>
                (let (ev, l, p) = fanoutLoop ts r True
                 in (q # EvTargetLog (tid t) r # ev, l, p)))
         else (let (ev, l, p) = fanoutLoop ts r logged in (q # ev, l, p)))"

text \<open>
  \<^verbatim>\<open>func (logr *Logr) fanout(rec *LogRec)\<close>: the deferred function recovers a panic
  of the loop and reports it with the loop variable \<^verbatim>\<open>target\<close>; then \<^verbatim>\<open>fanout\<close>
  returns.
\<close>

definition fanout :: "Logr \<Rightarrow> LogRec \<Rightarrow> event list" where
  "fanout s r =
     (let (ev, logged, p) = fanoutLoop (targets s) r False
      in case p of
           Some (t, v) \<Rightarrow> ev @ ReportError s (ErrFanoutFailed t v)
         | None \<Rightarrow> ev @ (if logged \<and> loggedCounter s then [EvLoggedCounterInc] else []))"

datatype outcome = Completed | Panicked string | Blocked

text \<open>
  The first loop of \<^verbatim>\<open>flush\<close> (lines 505 to 517) over the records waiting in the
  queue: the calls made, the records left, and the value of a panic that leaves the
  loop. A receive on a closed and empty channel yields nil, and \<^verbatim>\<open>rec.flush\<close>
  dereferences it.
\<close>

fun drainQueue :: "Logr \<Rightarrow> bool \<Rightarrow> LogRec list \<Rightarrow> event list \<times> LogRec list \<times> string option" where
  "drainQueue s cl [] = ([], [], if cl then Some ''nil pointer dereference'' else None)"
| "drainQueue s cl (r # q) =
     (if flush_chan r = None then
        (case prepPanic r of
           Some v \<Rightarrow> ([], q, Some v)
         | None \<Rightarrow> (let (ev, q', p) = drainQueue s cl q in (fanout s r @ ev, q', p)))
      else drainQueue s cl q)"

text \<open>
  The second loop of \<^verbatim>\<open>flush\<close> (lines 524 to 528): each target is given a marker
  around a fresh channel \<open>n\<close>, and the loop waits for the target to signal it.
\<close>

fun flushTargets :: "Target list \<Rightarrow> nat \<Rightarrow> event list \<times> nat \<times> outcome" where
  "flushTargets [] n = ([], n, Completed)"
| "flushTargets (t # ts) n =
     (let r = newFlushLogRec n
      in case logPanic t r of
           Some v \<Rightarrow> ([EvTargetLog (tid t) r], Suc n, Panicked v)
         | None \<Rightarrow>
             if acksFlush t then
               (let (ev, n', out) = flushTargets ts (Suc n) in (EvTargetLog (tid t) r # ev, n', out))
             else ([EvTargetLog (tid t) r], Suc n, Blocked))"

text \<open>The records waiting in \<^verbatim>\<open>logr.in\<close>, and the queue with other records waiting.\<close>

definition queue :: "Logr \<Rightarrow> LogRec list" where
  "queue s = (case in_chan s of None \<Rightarrow> [] | Some c \<Rightarrow> buf c)"

definition setQueue :: "Logr \<Rightarrow> LogRec list \<Rightarrow> Logr" where
  "setQueue s q = (case in_chan s of None \<Rightarrow> s | Some c \<Rightarrow> s\<lparr>in_chan := Some (c\<lparr>buf := q\<rparr>)\<rparr>)"

definition isClosed :: "Logr \<Rightarrow> bool" where
  "isClosed s = (case in_chan s of None \<Rightarrow> False | Some c \<Rightarrow> closed c)"

text \<open>\<^verbatim>\<open>func (logr *Logr) flush(done chan<- struct{})\<close>\<close>

definition flush :: "Logr \<Rightarrow> nat \<Rightarrow> outcome \<times> Logr \<times> event list" where
  "flush s d =
     (let (ev1, q', p) = drainQueue s (isClosed s) (queue s);
          s1 = setQueue s q'
      in case p of
           Some v \<Rightarrow> (Panicked v, s1, ev1)
         | None \<Rightarrow>
             (let (ev2, n', out) = flushTargets (targets s1) (nextChan s1);
                  s2 = s1\<lparr>nextChan := n'\<rparr>
              in case out of
                   Completed \<Rightarrow> (Completed, s2, ev1 @ ev2 @ [EvSignal d])
                 | Panicked v \<Rightarrow> (Panicked v, s2, ev1 @ ev2)
                 | Blocked \<Rightarrow> (Blocked, s2, ev1 @ ev2)))"

lemma drainQueue_length: "length (fst (snd (drainQueue s cl q))) \<le> length q"
  by (induction q) (auto split: option.splits prod.splits)

lemma queue_setQueue: "length (queue (setQueue s q)) \<le> length q"
  by (simp add: queue_def setQueue_def split: option.splits)

lemma flush_queue_length: "length (queue (fst (snd (flush s d)))) \<le> length (queue s)"
proof -
  obtain ev1 q' p where dq: "drainQueue s (isClosed s) (queue s) = (ev1, q', p)"
    by (cases "drainQueue s (isClosed s) (queue s)") auto
  have "length q' \<le> length (queue s)"
    using drainQueue_length [of s "isClosed s" "queue s"] dq by simp
  moreover have "length (queue (setQueue s q')) \<le> length q'"
    by (rule queue_setQueue)
  moreover have "in_chan (fst (snd (flush s d))) = in_chan (setQueue s q')"
    using dq by (simp add: flush_def Let_def split: option.splits prod.splits outcome.splits)
  then have "queue (fst (snd (flush s d))) = queue (setQueue s q')"
    by (simp add: queue_def)
  ultimately show ?thesis by simp
qed

lemma setQueue_shorter:
  assumes "in_chan s = Some c" and "buf c = r # q"
  shows "length (queue (setQueue s q)) < length (queue s)"
proof -
  have "length (queue (setQueue s q)) \<le> length q" by (rule queue_setQueue)
  also have "\<dots> < length (queue s)" using assms by (simp add: queue_def)
  finally show ?thesis .
qed

lemma flush_shorter:
  assumes "in_chan s = Some c" and "buf c = r # q"
    and "(x, s2, ev) = flush (setQueue s q) d"
  shows "length (queue s2) < length (queue s)"
proof -
  have "s2 = fst (snd (flush (setQueue s q) d))"
    using assms(3) [symmetric] by simp
  then have "length (queue s2) \<le> length (queue (setQueue s q))"
    using flush_queue_length [of "setQueue s q" d] by simp
  also have "\<dots> < length (queue s)" using assms(1,2) by (rule setQueue_shorter)
  finally show ?thesis .
qed

datatype consumer = Exited | Idle | Stuck

text \<open>
  \<^verbatim>\<open>func (logr *Logr) start()\<close> run on the records waiting in the queue. The
  deferred function recovers a panic of the loop body, reports it and launches
  \<^verbatim>\<open>start\<close> again, which goes on with the next record. The loop ends \<open>Exited\<close> on a
  closed and empty queue (and closes \<^verbatim>\<open>done\<close>), \<open>Idle\<close> in a receive on an open and
  empty one, and \<open>Stuck\<close> when \<^verbatim>\<open>flush\<close> waits for a target that never answers.
\<close>

function start :: "Logr \<Rightarrow> consumer \<times> Logr \<times> event list" where
  "start s =
     (case in_chan s of
        None \<Rightarrow> (Idle, s, [])
      | Some c \<Rightarrow>
          (case buf c of
             [] \<Rightarrow>
               if closed c then (Exited, s\<lparr>done_closed := Some True\<rparr>, [EvCloseDone])
               else (Idle, s, [])
           | r # q \<Rightarrow>
               (case flush_chan r of
                  Some d \<Rightarrow>
                    (case flush (setQueue s q) d of
                       (Completed, s2, ev) \<Rightarrow>
                         (case start s2 of (st, s3, ev') \<Rightarrow> (st, s3, ev @ ev'))
                     | (Panicked v, s2, ev) \<Rightarrow>
                         (case start s2 of (st, s3, ev') \<Rightarrow>
                            (st, s3, ev @ ReportError s2 (ErrRecovered v) @ ev'))
                     | (Blocked, s2, ev) \<Rightarrow> (Stuck, s2, ev))
                | None \<Rightarrow>
                    (case prepPanic r of
                       Some v \<Rightarrow>
                         (case start (setQueue s q) of (st, s3, ev') \<Rightarrow>
                            (st, s3, ReportError s (ErrRecovered v) @ ev'))
                     | None \<Rightarrow>
                         (case start (setQueue s q) of (st, s3, ev') \<Rightarrow>
                            (st, s3, fanout s r @ ev'))))))"
  by pat_completeness auto
termination
proof (relation "measure (\<lambda>s. length (queue s))")
qed (auto simp: setQueue_shorter flush_shorter)

subsection \<open>Flush and Shutdown\<close>

text \<open>
  The select at the end of \<^verbatim>\<open>Flush\<close> (lines 320 to 325), given the calls the
  consumer makes while \<^verbatim>\<open>Flush\<close> waits: nil when the channel of the sentinel is
  signalled, the timeout error when the deadline comes first.
\<close>

definition awaitFlush :: "nat \<Rightarrow> event list \<Rightarrow> error option" where
  "awaitFlush c ev = (if EvSignal c \<in> set ev then None else Some ErrTimeout)"

text \<open>
  \<^verbatim>\<open>func (logr *Logr) Flush() error\<close>. \<open>inTime\<close> says whether the consumer gets to
  run on the queue before the deadline of \<^verbatim>\<open>ctx\<close>.
\<close>

definition Flush ::
  "Consts \<Rightarrow> wait \<Rightarrow> bool \<Rightarrow> Logr \<Rightarrow> error option result \<times> Logr \<times> event list" where
  "Flush k w inTime s =
     (if \<not> HasTargets s then (Returns None, s, [])
      else
        let c = nextChan s;
            r = newFlushLogRec c;
            s1 = s\<lparr>nextChan := Suc c\<rparr>
        in case enqueue k w s1 r of
             (Panics v, s2, ev) \<Rightarrow> (Panics v, s2, ev)
           | (Returns u, s2, ev) \<Rightarrow>
               if inTime then
                 (case start s2 of (st, s3, ev') \<Rightarrow> (Returns (awaitFlush c ev'), s3, ev @ ev'))
               else (Returns (Some ErrTimeout), s2, ev))"

text \<open>The loop of \<^verbatim>\<open>Shutdown\<close> over \<^verbatim>\<open>logr.targets\<close> (lines 367 to 372).\<close>

fun shutdownTargets :: "Target list \<Rightarrow> error list \<times> event list" where
  "shutdownTargets [] = ([], [])"
| "shutdownTargets (t # ts) =
     (let (errs, ev) = shutdownTargets ts
      in ((case shutdownErr t of None \<Rightarrow> errs | Some e \<Rightarrow> ErrTarget e # errs),
          EvTargetShutdown (tid t) # ev))"

text \<open>
  \<^verbatim>\<open>func (logr *Logr) Shutdown() error\<close>. The value is the list of the errors
  returned, \<open>[]\<close> for nil. \<open>inTime\<close> says whether the consumer gets to run on the
  closed queue before the deadline of \<^verbatim>\<open>ctx\<close>.
\<close>

definition Shutdown :: "Consts \<Rightarrow> bool \<Rightarrow> Logr \<Rightarrow> error list \<times> Logr \<times> event list" where
  "Shutdown k inTime s =
     (if shutdown s then ([ErrShutdownAgain], s, [])
      else
        let s1 = resetLevelCache (s\<lparr>shutdown := True\<rparr>);
            (s2, ev1) =
              (if metricsDone s1 then (s1\<lparr>metricsDone := False\<rparr>, [EvCloseMetricsDone])
               else (s1, []));
            (errs1, s3, ev2) =
              (case in_chan s2 of
                 None \<Rightarrow> ([], s2, [])
               | Some c \<Rightarrow>
                   (let s' = s2\<lparr>in_chan := Some (c\<lparr>closed := True\<rparr>)\<rparr>
                    in if inTime then
                         (case start s' of
                            (Exited, s'', ev) \<Rightarrow> ([], s'', EvCloseIn # ev)
                          | (Idle, s'', ev) \<Rightarrow> ([ErrTimeout], s'', EvCloseIn # ev)
                          | (Stuck, s'', ev) \<Rightarrow> ([ErrTimeout], s'', EvCloseIn # ev))
                       else ([ErrTimeout], s', [EvCloseIn])));
            (errs2, ev3) = shutdownTargets (targets s3)
        in (errs1 @ errs2, s3, ev1 @ ev2 @ ev3))"

subsection \<open>Histories of calls\<close>

text \<open>
  The calls a program can make on an engine, with what the environment decides for
  each, and a run of the consumer on the records waiting.
\<close>

datatype call =
    CallAddTarget Target
  | CallIsLevelEnabled Level
  | CallResetLevelCache
  | CallEnqueue wait LogRec
  | CallFlush wait bool
  | CallShutdown bool
  | CallBorrowBuffer
  | CallReleaseBuffer Buffer
  | ConsumerRuns

fun step :: "Consts \<Rightarrow> Logr \<Rightarrow> call \<Rightarrow> Logr" where
  "step k s (CallAddTarget t) = fst (snd (AddTarget k s t))"
| "step k s (CallIsLevelEnabled lvl) = fst (snd (IsLevelEnabled s lvl))"
| "step k s CallResetLevelCache = ResetLevelCache s"
| "step k s (CallEnqueue w r) = fst (snd (enqueue k w s r))"
| "step k s (CallFlush w b) = fst (snd (Flush k w b s))"
| "step k s (CallShutdown b) = fst (snd (Shutdown k b s))"
| "step k s CallBorrowBuffer = snd (BorrowBuffer s)"
| "step k s (CallReleaseBuffer b) = ReleaseBuffer s b"
| "step k s ConsumerRuns = fst (snd (start s))"

definition run :: "Consts \<Rightarrow> Logr \<Rightarrow> call list \<Rightarrow> Logr" where
  "run k s cs = foldl (step k) s cs"

subsection \<open>Example values\<close>

definition exConsts :: Consts where
  "exConsts =
     \<lparr>DefaultMaxQueueSize = 1000, DefaultMaxPooledBuffer = 1048576,
      DefaultEnqueueTimeout = 30, DefaultShutdownTimeout = 30, DefaultFlushTimeout = 30,
      cacheAccepts = (\<lambda>m i. 0 \<le> i \<and> i < 256)\<rparr>"

definition exLevel :: Level where
  "exLevel = \<lparr>ID = 3, LName = ''info'', LStacktrace = False\<rparr>"

definition exRec :: LogRec where
  "exRec = \<lparr>rlevel = exLevel, payload = ''hello'', flush_chan = None, prepPanic = None\<rparr>"

text \<open>Three targets that accept every level: a plain one, one that wants a stack
  trace, and one whose \<^verbatim>\<open>Log\<close> panics.\<close>

definition exTarget :: Target where
  "exTarget =
     \<lparr>tid = 1, levelEnabled = (\<lambda>l. (True, False)), logPanic = (\<lambda>r. None),
      acksFlush = True, shutdownErr = None, enableMetrics = None\<rparr>"

definition exTargetTrace :: Target where
  "exTargetTrace =
     \<lparr>tid = 2, levelEnabled = (\<lambda>l. (True, True)), logPanic = (\<lambda>r. None),
      acksFlush = True, shutdownErr = None, enableMetrics = None\<rparr>"

definition exTargetPanics :: Target where
  "exTargetPanics =
     \<lparr>tid = 3, levelEnabled = (\<lambda>l. (True, False)), logPanic = (\<lambda>r. Some ''boom''),
      acksFlush = True, shutdownErr = None, enableMetrics = None\<rparr>"

text \<open>An engine set up as \<^verbatim>\<open>AddTarget\<close> leaves it, with the given targets and records
  waiting in a queue of capacity two.\<close>

definition exLogr :: "Target list \<Rightarrow> LogRec list \<Rightarrow> Logr" where
  "exLogr ts q =
     zeroLogr
       \<lparr>targets := ts, maxQueueSizeActual := 2,
        in_chan := Some \<lparr>buf = q, cap = 2, closed = False\<rparr>,
        done_closed := Some False, once_done := True,
        lvlCache := Some \<lparr>syncMap = False, accepts = (\<lambda>i. 0 \<le> i \<and> i < 256), entries = []\<rparr>,
        bufferPool := \<lparr>items = [], hasNew = True\<rparr>,
        MaxQueueSize := 2, MaxPooledBuffer := 1048576, nextChan := 10\<rparr>"

section \<open>Properties\<close>

declare start.simps [simp del]

subsection \<open>Level enablement\<close>

text \<open>
  C10: before any target is registered the level cache is nil, and then
  \<^verbatim>\<open>IsLevelEnabled\<close> returns the disabled status for every level, calls no target
  and reports nothing, and leaves the engine as it was.
\<close>

theorem IsLevelEnabled_before_setup:
  "lvlCache s = None \<Longrightarrow> IsLevelEnabled s lvl = (levelStatusDisabled, s, [])"
  by (simp add: IsLevelEnabled_def)

theorem IsLevelEnabled_before_setup_witness:
  "IsLevelEnabled zeroLogr exLevel = (levelStatusDisabled, zeroLogr, [])"
  using IsLevelEnabled_before_setup [of zeroLogr exLevel] by (simp add: zeroLogr_def)

lemma scanTargets_Enabled:
  "scanTargets ts lvl st = (st', ev) \<Longrightarrow>
   Enabled st' = (Enabled st \<or> (\<exists>t\<in>set ts. fst (levelEnabled t lvl)))"
  by (induction ts arbitrary: st st' ev) (auto split: prod.splits if_splits simp: Let_def)

lemma scanTargets_Stacktrace:
  "scanTargets ts lvl st = (st', ev) \<Longrightarrow>
   Stacktrace st' =
     (Stacktrace st \<or> (\<exists>t\<in>set ts. fst (levelEnabled t lvl) \<and> snd (levelEnabled t lvl)))"
  by (induction ts arbitrary: st st' ev) (auto split: prod.splits if_splits simp: Let_def)

lemma scanTargets_stops:
  "levelEnabled t lvl = (True, True) \<Longrightarrow> \<forall>u\<in>set pre. levelEnabled u lvl \<noteq> (True, True) \<Longrightarrow>
   snd (scanTargets (pre @ t # post) lvl st) =
     map (\<lambda>u. EvTargetIsLevelEnabled (tid u) lvl) (pre @ [t])"
  by (induction pre arbitrary: st) (auto simp: Let_def split_def prod_eq_iff)

lemma scanTargets_all:
  "\<forall>u\<in>set ts. levelEnabled u lvl \<noteq> (True, True) \<Longrightarrow>
   snd (scanTargets ts lvl st) = map (\<lambda>u. EvTargetIsLevelEnabled (tid u) lvl) ts"
  by (induction ts arbitrary: st) (auto simp: Let_def split_def prod_eq_iff)

lemma IsLevelEnabled_miss:
  assumes "lvlCache s = Some c" and "cache_get c (ID lvl) = None" and "\<not> shutdown s"
    and "scanTargets (targets s) lvl \<lparr>Enabled = False, Stacktrace = False\<rparr> = (st, ev)"
  shows "IsLevelEnabled s lvl =
     (if accepts c (ID lvl)
      then (st, s\<lparr>lvlCache := Some (c\<lparr>entries := (ID lvl, st) # entries c\<rparr>)\<rparr>, ev)
      else (\<lparr>Enabled = False, Stacktrace = False\<rparr>, s,
            ev @ ReportError s (ErrLevelCachePut (ID lvl))))"
  using assms by (simp add: IsLevelEnabled_def cache_put_def)

text \<open>
  C5: on a cache miss before shutdown, the status \<open>st\<close> that \<^verbatim>\<open>IsLevelEnabled\<close>
  computes over the registry has \<open>Enabled\<close> exactly when some target reports the level
  enabled, and \<open>Stacktrace\<close> exactly when some target reports it enabled and wants a
  trace. The targets asked are those up to and including the first one that reports
  both (where both flags become true), and all of them when there is none.
  \<^verbatim>\<open>IsLevelEnabled\<close> stores and returns \<open>st\<close>; when the cache refuses the entry it
  reports the error and returns the disabled status.
\<close>

theorem IsLevelEnabled_scan:
  assumes "lvlCache s = Some c" and "cache_get c (ID lvl) = None" and "\<not> shutdown s"
    and "scanTargets (targets s) lvl \<lparr>Enabled = False, Stacktrace = False\<rparr> = (st, ev)"
  shows "(Enabled st \<longleftrightarrow> (\<exists>t\<in>set (targets s). fst (levelEnabled t lvl)))
       \<and> (Stacktrace st \<longleftrightarrow>
            (\<exists>t\<in>set (targets s). fst (levelEnabled t lvl) \<and> snd (levelEnabled t lvl)))
       \<and> (\<forall>pre t post.
            targets s = pre @ t # post \<and> levelEnabled t lvl = (True, True) \<and>
            (\<forall>u\<in>set pre. levelEnabled u lvl \<noteq> (True, True)) \<longrightarrow>
            ev = map (\<lambda>u. EvTargetIsLevelEnabled (tid u) lvl) (pre @ [t]))
       \<and> ((\<forall>u\<in>set (targets s). levelEnabled u lvl \<noteq> (True, True)) \<longrightarrow>
            ev = map (\<lambda>u. EvTargetIsLevelEnabled (tid u) lvl) (targets s))
       \<and> IsLevelEnabled s lvl =
           (if accepts c (ID lvl)
            then (st, s\<lparr>lvlCache := Some (c\<lparr>entries := (ID lvl, st) # entries c\<rparr>)\<rparr>, ev)
            else (levelStatusDisabled, s, ev @ ReportError s (ErrLevelCachePut (ID lvl))))"
proof -
  have e: "Enabled st \<longleftrightarrow> (\<exists>t\<in>set (targets s). fst (levelEnabled t lvl))"
    using scanTargets_Enabled [OF assms(4)] by simp
  have t: "Stacktrace st \<longleftrightarrow>
            (\<exists>t\<in>set (targets s). fst (levelEnabled t lvl) \<and> snd (levelEnabled t lvl))"
    using scanTargets_Stacktrace [OF assms(4)] by simp
  have q1: "\<forall>pre t post.
            targets s = pre @ t # post \<and> levelEnabled t lvl = (True, True) \<and>
            (\<forall>u\<in>set pre. levelEnabled u lvl \<noteq> (True, True)) \<longrightarrow>
            ev = map (\<lambda>u. EvTargetIsLevelEnabled (tid u) lvl) (pre @ [t])"
  proof (intro allI impI)
    fix pre t post
    assume a: "targets s = pre @ t # post \<and> levelEnabled t lvl = (True, True) \<and>
            (\<forall>u\<in>set pre. levelEnabled u lvl \<noteq> (True, True))"
    have "snd (scanTargets (pre @ t # post) lvl \<lparr>Enabled = False, Stacktrace = False\<rparr>) =
          map (\<lambda>u. EvTargetIsLevelEnabled (tid u) lvl) (pre @ [t])"
      using a by (intro scanTargets_stops) auto
    then show "ev = map (\<lambda>u. EvTargetIsLevelEnabled (tid u) lvl) (pre @ [t])"
      using a assms(4) by simp
  qed
  have q2: "(\<forall>u\<in>set (targets s). levelEnabled u lvl \<noteq> (True, True)) \<longrightarrow>
            ev = map (\<lambda>u. EvTargetIsLevelEnabled (tid u) lvl) (targets s)"
    using scanTargets_all [of "targets s" lvl "\<lparr>Enabled = False, Stacktrace = False\<rparr>"] assms(4)
    by auto
  have r: "IsLevelEnabled s lvl =
           (if accepts c (ID lvl)
            then (st, s\<lparr>lvlCache := Some (c\<lparr>entries := (ID lvl, st) # entries c\<rparr>)\<rparr>, ev)
            else (levelStatusDisabled, s, ev @ ReportError s (ErrLevelCachePut (ID lvl))))"
    using IsLevelEnabled_miss [OF assms] by (simp add: levelStatusDisabled_def)
  from e t q1 q2 r show ?thesis by blast
qed

subsection \<open>Target registration\<close>

text \<open>
  C7: the first successful \<^verbatim>\<open>AddTarget\<close> fixes the queue size: the default
  (a constant of the package, not negative) when \<^verbatim>\<open>MaxQueueSize\<close> is 0, zero when
  it is negative, and \<^verbatim>\<open>MaxQueueSize\<close> otherwise; the intake channel is made with
  that capacity.
\<close>

theorem AddTarget_queue_size:
  assumes "\<not> shutdown s" and "\<not> once_done s" and "0 \<le> DefaultMaxQueueSize k"
  shows "maxQueueSizeActual (fst (snd (AddTarget k s t))) =
           (if MaxQueueSize s = 0 then DefaultMaxQueueSize k
            else if MaxQueueSize s < 0 then 0 else MaxQueueSize s)
         \<and> in_chan (fst (snd (AddTarget k s t))) =
             Some \<lparr>buf = [], cap = nat (maxQueueSizeActual (fst (snd (AddTarget k s t)))),
                   closed = False\<rparr>"
  using assms
  by (simp add: AddTarget_def onceBody_def queueSizeActual_def resetLevelCache_def
      cache_setup_def cache_clear_def Let_def split: option.splits prod.splits)

subsection \<open>Buffer pool\<close>

text \<open>
  C8: \<^verbatim>\<open>ReleaseBuffer\<close> puts the buffer, reset, into the pool when pooling is enabled
  and the capacity of the buffer is below \<^verbatim>\<open>MaxPooledBuffer\<close>, and otherwise leaves
  the engine as it was; with pooling disabled \<^verbatim>\<open>BorrowBuffer\<close> returns a new empty
  buffer and leaves the pool alone.
\<close>

theorem ReleaseBuffer_pool:
  "(\<not> DisableBufferPool s \<and> int (bufCap b) < MaxPooledBuffer s \<longrightarrow>
      items (bufferPool (ReleaseBuffer s b)) = b\<lparr>bytes := []\<rparr> # items (bufferPool s))
   \<and> (\<not> (\<not> DisableBufferPool s \<and> int (bufCap b) < MaxPooledBuffer s) \<longrightarrow>
      ReleaseBuffer s b = s)
   \<and> (DisableBufferPool s \<longrightarrow> BorrowBuffer s = (Some \<lparr>bytes = [], bufCap = 0\<rparr>, s))"
  by (simp add: ReleaseBuffer_def BorrowBuffer_def)

subsection \<open>Enqueue\<close>

text \<open>
  C2: \<^verbatim>\<open>enqueue\<close> on an engine with no target ever registered and no
  \<^verbatim>\<open>OnQueueFull\<close> callback. The code reports the error and then goes on to the select:
  the send on the nil channel is never ready, so the call waits for the whole enqueue
  timeout and reports a second error. The record is placed nowhere.
\<close>

theorem enqueue_before_setup:
  "enqueue k w zeroLogr r =
     (Returns (), zeroLogr,
      [EvStderr ErrEnqueueBeforeSetup, EvWaited (DefaultEnqueueTimeout k),
       EvStderr (ErrEnqueueTimedOut r)])"
  by (simp add: enqueue_def enqueueBlocking_def trySend_def zeroLogr_def ReportError_def
      enqueueTimeout_def)

text \<open>
  C6: when the queue is full (open, with no room in its buffer) and the overflow
  callback answers drop, \<^verbatim>\<open>enqueue\<close> returns after that one call, without waiting,
  and the engine is as it was: the record is in no queue.
\<close>

theorem enqueue_full_drop:
  assumes "in_chan s = Some c" and "\<not> closed c" and "cap c \<le> length (buf c)"
    and "OnQueueFull s = Some f" and "f r (maxQueueSizeActual s)"
  shows "enqueue k w s r = (Returns (), s, [EvOnQueueFull r (maxQueueSizeActual s)])"
  using assms by (simp add: enqueue_def trySend_def)

subsection \<open>Shutdown\<close>

text \<open>
  C4: once the shutdown flag is set, \<^verbatim>\<open>Shutdown\<close> returns the error
  "Shutdown called again after shut down", calls nothing (no target's
  \<^verbatim>\<open>Shutdown\<close>), and leaves the engine as it was.
\<close>

theorem Shutdown_again:
  "shutdown s \<Longrightarrow> Shutdown k b s = ([ErrShutdownAgain], s, [])"
  by (simp add: Shutdown_def)

end
